theory Spec2Isabelle
  imports Main "HOL-Library.Word"
begin

section \<open>Data model\<close>

text \<open>
  The program is \<^verbatim>\<open>src/main.py\<close>: the class \<^verbatim>\<open>FernetCypher\<close>, the two
  functions \<^verbatim>\<open>load_message\<close> and \<^verbatim>\<open>write_message\<close>, and the event handlers of
  the main loop. Python values are modelled as follows.
  \<^item> \<^verbatim>\<open>bytes\<close> is a list of 8-bit words.
  \<^item> \<^verbatim>\<open>str\<close> is a list of code points (natural numbers below \<open>0x110000\<close>);
    a \<^verbatim>\<open>str\<close> may hold surrogate code points, as in Python.
  \<^item> A value that may be \<^verbatim>\<open>None\<close> is an \<open>option\<close>.
  \<^item> A \<^verbatim>\<open>Path\<close> is the list of its components; file names (one component)
    are byte strings, which agrees with Python on the position of the ASCII dot.

  What the model leaves out: a call of \<^verbatim>\<open>logging\<close> appends one record and never
  raises; \<^verbatim>\<open>Path.resolve()\<close> never raises and paths are taken as resolved; only
  exceptions of class \<^verbatim>\<open>Exception\<close> arise inside a \<^verbatim>\<open>try\<close>.
\<close>

type_synonym byte = "8 word"
type_synonym bytes = "byte list"
type_synonym pystr = "nat list"
type_synonym path = "string list"

text \<open>The exceptions that the code or what it calls can raise inside a \<^verbatim>\<open>try\<close>.\<close>

datatype exn =
    AttributeError
  | TypeError
  | ValueError
  | InvalidToken
  | UnicodeEncodeError
  | UnicodeDecodeError
  | FileNotFoundError
  | PermissionError
  | BinasciiError

text \<open>
  How a call ends: it returns a value, an exception reaches the caller, or
  \<^verbatim>\<open>sys.exit(c)\<close> ends the process (\<^verbatim>\<open>SystemExit\<close> is not an \<^verbatim>\<open>Exception\<close>, so
  no \<^verbatim>\<open>except Exception\<close> of the program catches it).
\<close>

datatype 'a outcome = Returned 'a | Raised exn | Exited int

text \<open>The log: one record per \<^verbatim>\<open>logging\<close> call, in order.\<close>

datatype log_record = Debug string | Info string | Error exn

text \<open>
  The file system: the bytes stored at each path, which paths can be opened for
  reading and for writing, and which exception \<^verbatim>\<open>open\<close> raises for a path that cannot
  be opened for writing (\<^verbatim>\<open>PermissionError\<close>, \<^verbatim>\<open>FileNotFoundError\<close> for a missing
  directory, and so on). A write either fails at \<^verbatim>\<open>open\<close> and changes nothing, or
  replaces the whole file.
\<close>

record filesystem =
  content :: "path \<rightharpoonup> bytes"
  readable :: "path \<Rightarrow> bool"
  writable :: "path \<Rightarrow> bool"
  write_error :: "path \<Rightarrow> exn"

record world =
  fs :: filesystem
  logs :: "log_record list"

text \<open>
  The text layer of the platform, a parameter: how \<^verbatim>\<open>open(p, 'r').read()\<close> turns the
  bytes of a file into a \<^verbatim>\<open>str\<close> (the locale's codec and newline translation) and how
  \<^verbatim>\<open>open(p, 'w').write(s)\<close> turns a \<^verbatim>\<open>str\<close> into bytes.
\<close>

record text_layer =
  decode_text :: "bytes \<Rightarrow> exn + pystr"
  encode_text :: "pystr \<Rightarrow> exn + bytes"

text \<open>
  The class \<^verbatim>\<open>cryptography.fernet.Fernet\<close> is an external library; it is a parameter
  of the model. \<open>'f\<close> is the type of a \<^verbatim>\<open>Fernet\<close> object. Key generation and
  encryption draw on the operating system's randomness and clock: that input is the
  argument of type \<open>bytes\<close>. Decryption is called without a time-to-live, so it
  reads no clock.
\<close>

record 'f fernet_lib =
  lib_generate_key :: "bytes \<Rightarrow> exn + bytes"
  lib_Fernet :: "bytes \<Rightarrow> exn + 'f"
  lib_encrypt :: "'f \<Rightarrow> bytes \<Rightarrow> bytes \<Rightarrow> exn + bytes"
  lib_decrypt :: "'f \<Rightarrow> bytes \<Rightarrow> exn + bytes"

text \<open>
  An instance of \<^verbatim>\<open>FernetCypher\<close>: its three slots
  (\<^verbatim>\<open>__slots__ = ['_key', '_key_path', '_status']\<close>). A slot that was never assigned is
  \<open>None\<close>; reading it raises \<^verbatim>\<open>AttributeError\<close>.
\<close>

record FernetCypher =
  f_key :: "bytes option"
  f_key_path :: "path option"
  f_status :: "bool option"

definition new_object :: FernetCypher where
  "new_object = \<lparr>f_key = None, f_key_path = None, f_status = None\<rparr>"

section \<open>Library functions of Python used by the code\<close>

definition logging :: "log_record \<Rightarrow> world \<Rightarrow> world" where
  "logging r w = w\<lparr>logs := logs w @ [r]\<rparr>"

text \<open>
  The text of a resolved path in a log message, with the current directory taken as
  the root.
\<close>

definition path_str :: "path \<Rightarrow> string" where
  "path_str p = concat (map (\<lambda>c. CHR ''/'' # c) p)"

text \<open>\<^verbatim>\<open>open(p, 'rb').read()\<close> and \<^verbatim>\<open>with open(p, 'wb') as file: file.write(b)\<close>.\<close>

definition open_rb :: "filesystem \<Rightarrow> path \<Rightarrow> exn + bytes" where
  "open_rb f p =
     (case content f p of
        None \<Rightarrow> Inl FileNotFoundError
      | Some b \<Rightarrow> if readable f p then Inr b else Inl PermissionError)"

definition open_wb :: "filesystem \<Rightarrow> path \<Rightarrow> bytes \<Rightarrow> exn + filesystem" where
  "open_wb f p b =
     (if writable f p then Inr (f\<lparr>content := (content f)(p \<mapsto> b)\<rparr>)
      else Inl (write_error f p))"

text \<open>\<^verbatim>\<open>open(p, 'r').read()\<close>: the bytes of the file through the text layer.\<close>

definition open_r :: "text_layer \<Rightarrow> filesystem \<Rightarrow> path \<Rightarrow> exn + pystr" where
  "open_r T f p =
     (case open_rb f p of Inl e \<Rightarrow> Inl e | Inr b \<Rightarrow> decode_text T b)"

subsection \<open>\<^verbatim>\<open>str.encode()\<close> and \<^verbatim>\<open>bytes.decode()\<close>: strict UTF-8\<close>

definition is_surrogate :: "nat \<Rightarrow> bool" where
  "is_surrogate c \<longleftrightarrow> 0xD800 \<le> c \<and> c \<le> 0xDFFF"

definition encode_cp :: "nat \<Rightarrow> exn + bytes" where
  "encode_cp c =
     (if c < 0x80 then Inr [of_nat c]
      else if c < 0x800 then Inr [of_nat (0xC0 + c div 64), of_nat (0x80 + c mod 64)]
      else if is_surrogate c then Inl UnicodeEncodeError
      else if c < 0x10000 then
        Inr [of_nat (0xE0 + c div 4096), of_nat (0x80 + c div 64 mod 64),
             of_nat (0x80 + c mod 64)]
      else if c < 0x110000 then
        Inr [of_nat (0xF0 + c div 262144), of_nat (0x80 + c div 4096 mod 64),
             of_nat (0x80 + c div 64 mod 64), of_nat (0x80 + c mod 64)]
      else Inl UnicodeEncodeError)"

fun str_encode :: "pystr \<Rightarrow> exn + bytes" where
  "str_encode [] = Inr []"
| "str_encode (c # cs) =
     (case encode_cp c of
        Inl e \<Rightarrow> Inl e
      | Inr bs \<Rightarrow> (case str_encode cs of Inl e \<Rightarrow> Inl e | Inr rest \<Rightarrow> Inr (bs @ rest)))"

definition is_cont :: "byte \<Rightarrow> bool" where
  "is_cont b \<longleftrightarrow> 0x80 \<le> unat b \<and> unat b \<le> 0xBF"

definition cons_cp :: "nat \<Rightarrow> exn + pystr \<Rightarrow> exn + pystr" where
  "cons_cp c r = (case r of Inl e \<Rightarrow> Inl e | Inr cs \<Rightarrow> Inr (c # cs))"

fun bytes_decode :: "bytes \<Rightarrow> exn + pystr" where
  "bytes_decode [] = Inr []"
| "bytes_decode (b0 # bs) =
     (if unat b0 < 0x80 then cons_cp (unat b0) (bytes_decode bs)
      else if 0xC2 \<le> unat b0 \<and> unat b0 \<le> 0xDF then
        (case bs of
           b1 # r \<Rightarrow>
             if is_cont b1
             then cons_cp ((unat b0 - 0xC0) * 64 + (unat b1 - 0x80)) (bytes_decode r)
             else Inl UnicodeDecodeError
         | _ \<Rightarrow> Inl UnicodeDecodeError)
      else if 0xE0 \<le> unat b0 \<and> unat b0 \<le> 0xEF then
        (case bs of
           b1 # b2 # r \<Rightarrow>
             (let c = (unat b0 - 0xE0) * 4096 + (unat b1 - 0x80) * 64 + (unat b2 - 0x80)
              in if is_cont b1 \<and> is_cont b2 \<and> 0x800 \<le> c \<and> \<not> is_surrogate c
                 then cons_cp c (bytes_decode r)
                 else Inl UnicodeDecodeError)
         | _ \<Rightarrow> Inl UnicodeDecodeError)
      else if 0xF0 \<le> unat b0 \<and> unat b0 \<le> 0xF4 then
        (case bs of
           b1 # b2 # b3 # r \<Rightarrow>
             (let c = (unat b0 - 0xF0) * 262144 + (unat b1 - 0x80) * 4096
                      + (unat b2 - 0x80) * 64 + (unat b3 - 0x80)
              in if is_cont b1 \<and> is_cont b2 \<and> is_cont b3 \<and> 0x10000 \<le> c \<and> c < 0x110000
                 then cons_cp c (bytes_decode r)
                 else Inl UnicodeDecodeError)
         | _ \<Rightarrow> Inl UnicodeDecodeError)
      else Inl UnicodeDecodeError)"

section \<open>The class FernetCypher\<close>

text \<open>
  \<^verbatim>\<open>load_key\<close> (lines 61 to 72): the whole body is a \<^verbatim>\<open>try\<close>; its handler logs
  the error and calls \<^verbatim>\<open>sys.exit(-1)\<close>.
\<close>

definition load_key :: "FernetCypher \<Rightarrow> path \<Rightarrow> world \<Rightarrow> unit outcome \<times> FernetCypher \<times> world" where
  "load_key self key_path w =
     (let w1 = logging (Debug (''Loading key from '' @ path_str key_path)) w in
      case open_rb (fs w1) key_path of
        Inr b \<Rightarrow> (Returned (), self\<lparr>f_key := Some b\<rparr>, w1)
      | Inl e \<Rightarrow> (Exited (- 1), self, logging (Error e) w1))"

text \<open>
  \<^verbatim>\<open>__init__\<close> (lines 37 to 42). A \<^verbatim>\<open>Path\<close> is always true in a condition, so the
  test \<^verbatim>\<open>if key_path\<close> asks whether a path was given.
\<close>

definition init :: "path option \<Rightarrow> world \<Rightarrow> FernetCypher outcome \<times> world" where
  "init key_path w =
     (case key_path of
        Some p \<Rightarrow>
          (case load_key new_object p w of
             (Returned u, self, w1) \<Rightarrow> (Returned (self\<lparr>f_status := Some True\<rparr>), w1)
           | (Raised e, self, w1) \<Rightarrow> (Raised e, w1)
           | (Exited c, self, w1) \<Rightarrow> (Exited c, w1))
      | None \<Rightarrow>
          (Returned (new_object\<lparr>f_status := Some True\<rparr>),
           logging (Info ''You must load a key before encrypt or decrypt a message. To load a key, use the method load_key()'') w))"

text \<open>
  \<^verbatim>\<open>generate_key\<close> (lines 44 to 59). The key is assigned to the slot before the file
  is opened; the handler logs and returns \<^verbatim>\<open>False\<close>.
\<close>

definition generate_key ::
  "'f fernet_lib \<Rightarrow> bytes \<Rightarrow> FernetCypher \<Rightarrow> path \<Rightarrow> world \<Rightarrow> bool outcome \<times> FernetCypher \<times> world" where
  "generate_key L r self key_path w =
     (let w1 = logging (Debug ''Generating the key...'') w in
      case lib_generate_key L r of
        Inl e \<Rightarrow> (Returned False, self, logging (Error e) w1)
      | Inr k \<Rightarrow>
          (let self1 = self\<lparr>f_key := Some k\<rparr> in
           case open_wb (fs w1) key_path k of
             Inl e \<Rightarrow> (Returned False, self1, logging (Error e) w1)
           | Inr f' \<Rightarrow>
               (Returned True, self1,
                logging (Debug (''Key written to '' @ path_str key_path)) (w1\<lparr>fs := f'\<rparr>))))"

text \<open>Reading the slot \<^verbatim>\<open>self._key\<close>, and calling \<^verbatim>\<open>.encode()\<close> on the argument.\<close>

definition get_key :: "FernetCypher \<Rightarrow> exn + bytes" where
  "get_key self = (case f_key self of None \<Rightarrow> Inl AttributeError | Some k \<Rightarrow> Inr k)"

definition encode_arg :: "pystr option \<Rightarrow> exn + bytes" where
  "encode_arg m = (case m of None \<Rightarrow> Inl AttributeError | Some s \<Rightarrow> str_encode s)"

text \<open>
  The body of the \<^verbatim>\<open>try\<close> of \<^verbatim>\<open>encrypt_message\<close> (lines 85 and 86), in Python's order
  of evaluation: \<^verbatim>\<open>self._key\<close>, \<^verbatim>\<open>Fernet(...)\<close>, \<^verbatim>\<open>message.encode()\<close>,
  \<^verbatim>\<open>f.encrypt(...)\<close>, \<^verbatim>\<open>.decode()\<close>.
\<close>

definition encrypt_body :: "'f fernet_lib \<Rightarrow> bytes \<Rightarrow> FernetCypher \<Rightarrow> pystr option \<Rightarrow> exn + pystr" where
  "encrypt_body L r self message =
     (case get_key self of
        Inl e \<Rightarrow> Inl e
      | Inr k \<Rightarrow>
          (case lib_Fernet L k of
             Inl e \<Rightarrow> Inl e
           | Inr f \<Rightarrow>
               (case encode_arg message of
                  Inl e \<Rightarrow> Inl e
                | Inr data \<Rightarrow>
                    (case lib_encrypt L f data r of
                       Inl e \<Rightarrow> Inl e
                     | Inr token \<Rightarrow> bytes_decode token))))"

definition decrypt_body :: "'f fernet_lib \<Rightarrow> FernetCypher \<Rightarrow> pystr option \<Rightarrow> exn + pystr" where
  "decrypt_body L self encrypted_message =
     (case get_key self of
        Inl e \<Rightarrow> Inl e
      | Inr k \<Rightarrow>
          (case lib_Fernet L k of
             Inl e \<Rightarrow> Inl e
           | Inr f \<Rightarrow>
               (case encode_arg encrypted_message of
                  Inl e \<Rightarrow> Inl e
                | Inr token \<Rightarrow>
                    (case lib_decrypt L f token of
                       Inl e \<Rightarrow> Inl e
                     | Inr data \<Rightarrow> bytes_decode data))))"

text \<open>
  \<^verbatim>\<open>encrypt_message\<close> (lines 74 to 90) and \<^verbatim>\<open>decrypt_message\<close> (lines 92 to 108):
  the handler logs the error and sets \<^verbatim>\<open>_status\<close> to \<^verbatim>\<open>False\<close>; the method then
  ends without a \<^verbatim>\<open>return\<close>, so it returns \<^verbatim>\<open>None\<close>.
\<close>

definition encrypt_message ::
  "'f fernet_lib \<Rightarrow> bytes \<Rightarrow> FernetCypher \<Rightarrow> pystr option \<Rightarrow> world
     \<Rightarrow> pystr option outcome \<times> FernetCypher \<times> world" where
  "encrypt_message L r self message w =
     (let w1 = logging (Debug ''Encrypting message...'') w in
      case encrypt_body L r self message of
        Inr s \<Rightarrow> (Returned (Some s), self, w1)
      | Inl e \<Rightarrow> (Returned None, self\<lparr>f_status := Some False\<rparr>, logging (Error e) w1))"

definition decrypt_message ::
  "'f fernet_lib \<Rightarrow> FernetCypher \<Rightarrow> pystr option \<Rightarrow> world
     \<Rightarrow> pystr option outcome \<times> FernetCypher \<times> world" where
  "decrypt_message L self encrypted_message w =
     (let w1 = logging (Debug ''Decrypting message...'') w in
      case decrypt_body L self encrypted_message of
        Inr s \<Rightarrow> (Returned (Some s), self, w1)
      | Inl e \<Rightarrow> (Returned None, self\<lparr>f_status := Some False\<rparr>, logging (Error e) w1))"

text \<open>The property \<^verbatim>\<open>status\<close> (lines 110 to 112) reads the slot \<^verbatim>\<open>_status\<close>.\<close>

definition status :: "FernetCypher \<Rightarrow> bool outcome" where
  "status self = (case f_status self of None \<Rightarrow> Raised AttributeError | Some b \<Rightarrow> Returned b)"

section \<open>Reading and writing message files\<close>

text \<open>
  \<^verbatim>\<open>load_message\<close> (lines 115 to 121): the handler only logs, so the function ends
  without a \<^verbatim>\<open>return\<close> and returns \<^verbatim>\<open>None\<close>.
\<close>

definition load_message :: "text_layer \<Rightarrow> path \<Rightarrow> world \<Rightarrow> pystr option outcome \<times> world" where
  "load_message T message_path w =
     (let w1 = logging (Debug (''Loading message from '' @ path_str message_path)) w in
      case open_r T (fs w1) message_path of
        Inr s \<Rightarrow> (Returned (Some s), w1)
      | Inl e \<Rightarrow> (Returned None, logging (Error e) w1))"

text \<open>
  \<^verbatim>\<open>write_message\<close> (lines 123 to 131): \<^verbatim>\<open>open(p, 'w')\<close> empties the file before
  \<^verbatim>\<open>file.write(message)\<close> runs; writing \<^verbatim>\<open>None\<close> raises \<^verbatim>\<open>TypeError\<close>.
\<close>

definition write_message :: "text_layer \<Rightarrow> pystr option \<Rightarrow> path \<Rightarrow> world \<Rightarrow> unit outcome \<times> world" where
  "write_message T message message_path w =
     (let w1 = logging (Debug (''Writing message on '' @ path_str message_path)) w in
      case open_wb (fs w1) message_path [] of
        Inl e \<Rightarrow> (Returned (), logging (Error e) w1)
      | Inr f1 \<Rightarrow>
          (case message of
             None \<Rightarrow> (Returned (), logging (Error TypeError) (w1\<lparr>fs := f1\<rparr>))
           | Some s \<Rightarrow>
               (case encode_text T s of
                  Inl e \<Rightarrow> (Returned (), logging (Error e) (w1\<lparr>fs := f1\<rparr>))
                | Inr b \<Rightarrow>
                    (Returned (), w1\<lparr>fs := f1\<lparr>content := (content f1)(message_path \<mapsto> b)\<rparr>\<rparr>))))"

section \<open>The event handlers of the main loop\<close>

subsection \<open>\<^verbatim>\<open>Path.name\<close>, \<^verbatim>\<open>Path.stem\<close> and \<^verbatim>\<open>Path.suffix\<close>\<close>

text \<open>
  As \<^verbatim>\<open>pathlib\<close> defines them (Python 3.4 to 3.13): with \<^verbatim>\<open>i = name.rfind('.')\<close>, the
  suffix is \<^verbatim>\<open>name[i:]\<close> and the stem \<^verbatim>\<open>name[:i]\<close> when \<^verbatim>\<open>0 < i < len(name) - 1\<close>;
  otherwise the suffix is empty and the stem is the whole name.
\<close>

fun rfind :: "'a \<Rightarrow> 'a list \<Rightarrow> nat option" where
  "rfind x [] = None"
| "rfind x (y # ys) =
     (case rfind x ys of
        Some i \<Rightarrow> Some (Suc i)
      | None \<Rightarrow> if y = x then Some 0 else None)"

definition path_name :: "path \<Rightarrow> string" where
  "path_name p = (if p = [] then [] else last p)"

definition suffix :: "path \<Rightarrow> string" where
  "suffix p =
     (case rfind (CHR ''.'') (path_name p) of
        None \<Rightarrow> []
      | Some i \<Rightarrow> if 0 < i \<and> i < length (path_name p) - 1 then drop i (path_name p) else [])"

definition stem :: "path \<Rightarrow> string" where
  "stem p =
     (case rfind (CHR ''.'') (path_name p) of
        None \<Rightarrow> path_name p
      | Some i \<Rightarrow> if 0 < i \<and> i < length (path_name p) - 1 then take i (path_name p)
                  else path_name p)"

text \<open>\<^verbatim>\<open>ROOT_PATH = Path()\<close>, and \<^verbatim>\<open>ROOT_PATH / name\<close> for a file name.\<close>

definition ROOT_PATH :: path where
  "ROOT_PATH = []"

definition joinpath :: "path \<Rightarrow> string \<Rightarrow> path" where
  "joinpath p n = p @ [n]"

definition DEFAULT_KEY_PATH :: path where
  "DEFAULT_KEY_PATH = joinpath ROOT_PATH ''default.key''"

text \<open>Lines 236 and 259: the names of the output files.\<close>

definition encrypted_name :: "path \<Rightarrow> string" where
  "encrypted_name message_file_path = stem message_file_path @ ''_C'' @ suffix message_file_path"

definition decrypted_name :: "path \<Rightarrow> string" where
  "decrypted_name message_file_path = stem message_file_path @ ''_D'' @ suffix message_file_path"

text \<open>
  The work of the handlers of \<^verbatim>\<open>-ENCRYPT_MESSAGE-\<close> (lines 233 to 240) and
  \<^verbatim>\<open>-DECRYPT_MESSAGE-\<close> (lines 256 to 263), once a key file and a message file are
  selected. An exception that reaches the main loop is logged there and the process
  exits with \<^verbatim>\<open>sys.exit(-1)\<close> (lines 293 to 295).
\<close>

definition main_loop_except :: "exn \<Rightarrow> world \<Rightarrow> unit outcome \<times> world" where
  "main_loop_except e w = (Exited (- 1), logging (Error e) w)"

definition encrypt_event ::
  "'f fernet_lib \<Rightarrow> text_layer \<Rightarrow> bytes \<Rightarrow> path \<Rightarrow> path \<Rightarrow> pystr option \<Rightarrow> world
     \<Rightarrow> unit outcome \<times> world" where
  "encrypt_event L T r key_file_path message_file_path message w =
     (case init (Some key_file_path) w of
        (Exited c, w1) \<Rightarrow> (Exited c, w1)
      | (Raised e, w1) \<Rightarrow> main_loop_except e w1
      | (Returned f_cypher, w1) \<Rightarrow>
          (case encrypt_message L r f_cypher message w1 of
             (Exited c, f1, w2) \<Rightarrow> (Exited c, w2)
           | (Raised e, f1, w2) \<Rightarrow> main_loop_except e w2
           | (Returned encrypted, f1, w2) \<Rightarrow>
               (case status f1 of
                  Exited c \<Rightarrow> (Exited c, w2)
                | Raised e \<Rightarrow> main_loop_except e w2
                | Returned ok \<Rightarrow>
                    if ok then
                      write_message T encrypted
                        (joinpath ROOT_PATH (encrypted_name message_file_path)) w2
                    else (Returned (), logging (Info ''Encryption failed'') w2))))"

definition decrypt_event ::
  "'f fernet_lib \<Rightarrow> text_layer \<Rightarrow> path \<Rightarrow> path \<Rightarrow> pystr option \<Rightarrow> world
     \<Rightarrow> unit outcome \<times> world" where
  "decrypt_event L T key_file_path message_file_path message w =
     (case init (Some key_file_path) w of
        (Exited c, w1) \<Rightarrow> (Exited c, w1)
      | (Raised e, w1) \<Rightarrow> main_loop_except e w1
      | (Returned f_cypher, w1) \<Rightarrow>
          (case decrypt_message L f_cypher message w1 of
             (Exited c, f1, w2) \<Rightarrow> (Exited c, w2)
           | (Raised e, f1, w2) \<Rightarrow> main_loop_except e w2
           | (Returned decrypted, f1, w2) \<Rightarrow>
               (case status f1 of
                  Exited c \<Rightarrow> (Exited c, w2)
                | Raised e \<Rightarrow> main_loop_except e w2
                | Returned ok \<Rightarrow>
                    if ok then
                      write_message T decrypted
                        (joinpath ROOT_PATH (decrypted_name message_file_path)) w2
                    else (Returned (), logging (Info ''Decryption failed'') w2))))"

section \<open>Compositions of calls\<close>



text \<open>
  The life of an instance after its construction: a sequence of method calls, each
  with its arguments. A call that ends the process ends the sequence: the result is
  \<open>None\<close>.
\<close>

datatype method_call =
    Generate_key bytes path
  | Load_key path
  | Encrypt_message bytes "pystr option"
  | Decrypt_message "pystr option"

fun call :: "'f fernet_lib \<Rightarrow> method_call \<Rightarrow> FernetCypher \<Rightarrow> world \<Rightarrow> (FernetCypher \<times> world) option" where
  "call L (Generate_key r p) self w =
     (case generate_key L r self p w of
        (Returned b, self1, w1) \<Rightarrow> Some (self1, w1) | (_, self1, w1) \<Rightarrow> None)"
| "call L (Load_key p) self w =
     (case load_key self p w of
        (Returned u, self1, w1) \<Rightarrow> Some (self1, w1) | (_, self1, w1) \<Rightarrow> None)"
| "call L (Encrypt_message r m) self w =
     (case encrypt_message L r self m w of
        (Returned c, self1, w1) \<Rightarrow> Some (self1, w1) | (_, self1, w1) \<Rightarrow> None)"
| "call L (Decrypt_message m) self w =
     (case decrypt_message L self m w of
        (Returned c, self1, w1) \<Rightarrow> Some (self1, w1) | (_, self1, w1) \<Rightarrow> None)"

fun calls :: "'f fernet_lib \<Rightarrow> method_call list \<Rightarrow> FernetCypher \<Rightarrow> world \<Rightarrow> (FernetCypher \<times> world) option" where
  "calls L [] self w = Some (self, w)"
| "calls L (c # cs) self w =
     (case call L c self w of None \<Rightarrow> None | Some (self1, w1) \<Rightarrow> calls L cs self1 w1)"

section \<open>What the library is assumed to do\<close>





section \<open>Concrete inputs\<close>

text \<open>
  A small library instance on which the model can be evaluated. It is not Fernet: a
  key is four bytes, a token is the key, one byte of randomness and the data, and
  \<^verbatim>\<open>decrypt\<close> checks the key. Like the real constructor, whose base64 decoder skips
  bytes outside its alphabet, its constructor skips line feeds in a key.
\<close>

definition sample_key :: "bytes \<Rightarrow> bytes" where
  "sample_key k = filter (\<lambda>b. b \<noteq> 0x0A) k"

definition sample_nonce :: "bytes \<Rightarrow> byte" where
  "sample_nonce r = (case r of [] \<Rightarrow> 0x30 | b # bs \<Rightarrow> b)"

definition sample_lib :: "bytes fernet_lib" where
  "sample_lib =
     \<lparr>lib_generate_key = (\<lambda>r. Inr (take 4 (sample_key r @ replicate 4 0x41))),
      lib_Fernet = (\<lambda>k. if length (sample_key k) = 4 then Inr (sample_key k) else Inl ValueError),
      lib_encrypt = (\<lambda>f x r. Inr (f @ [sample_nonce r] @ x)),
      lib_decrypt =
        (\<lambda>f t. if take 4 t = f \<and> 5 \<le> length t then Inr (drop 5 t) else Inl InvalidToken)\<rparr>"

text \<open>A text layer that reads and writes UTF-8 and translates no newline.\<close>

definition sample_text :: text_layer where
  "sample_text = \<lparr>decode_text = bytes_decode, encode_text = str_encode\<rparr>"

text \<open>
  A file system with a key file \<^verbatim>\<open>k.key\<close> holding \<^verbatim>\<open>ABCD\<close>, a message file
  \<^verbatim>\<open>note.txt\<close> holding \<^verbatim>\<open>hi\<close>, and a directory \<^verbatim>\<open>ro\<close> in which nothing can be written.
\<close>

definition sample_fs :: filesystem where
  "sample_fs =
     \<lparr>content = [[''k.key''] \<mapsto> [0x41, 0x42, 0x43, 0x44], [''note.txt''] \<mapsto> [0x68, 0x69]],
      readable = (\<lambda>p. True),
      writable = (\<lambda>p. \<not> (case p of [] \<Rightarrow> False | d # ds \<Rightarrow> d = ''ro'')),
      write_error = (\<lambda>p. PermissionError)\<rparr>"

definition sample_world :: world where
  "sample_world = \<lparr>fs = sample_fs, logs = []\<rparr>"

definition sample_cypher :: FernetCypher where
  "sample_cypher = \<lparr>f_key = Some [0x41, 0x42, 0x43, 0x44], f_key_path = None, f_status = Some True\<rparr>"

section \<open>UTF-8: encoding and decoding are inverse to each other\<close>




























lemma byte_of_unat: "of_nat (unat (b::byte)) = b"
  by simp









section \<open>Facts about the model\<close>

lemma fs_logging: "fs (logging r w) = fs w"
  by (simp add: logging_def)

lemma logs_logging: "logs (logging r w) = logs w @ [r]"
  by (simp add: logging_def)

lemma open_rb_fails:
  "content f p = None \<or> \<not> readable f p \<Longrightarrow> \<exists>e. open_rb f p = Inl e"
  by (auto simp add: open_rb_def split: option.splits)

lemma generate_key_cases:
  "generate_key L r self p w =
     (case lib_generate_key L r of
        Inl e \<Rightarrow> (Returned False, self, logging (Error e) (logging (Debug ''Generating the key...'') w))
      | Inr k \<Rightarrow>
          (case open_wb (fs w) p k of
             Inl e \<Rightarrow> (Returned False, self\<lparr>f_key := Some k\<rparr>,
                       logging (Error e) (logging (Debug ''Generating the key...'') w))
           | Inr f' \<Rightarrow> (Returned True, self\<lparr>f_key := Some k\<rparr>,
                        logging (Debug (''Key written to '' @ path_str p))
                          (logging (Debug ''Generating the key...'') w\<lparr>fs := f'\<rparr>))))"
  by (simp add: generate_key_def fs_logging Let_def split: sum.splits)

lemma generate_key_status:
  "f_status (fst (snd (generate_key L r self p w))) = f_status self"
  by (simp add: generate_key_cases split: sum.splits)

lemma load_key_status:
  "f_status (fst (snd (load_key self p w))) = f_status self"
  by (simp add: load_key_def Let_def split: sum.splits)

lemma encrypt_message_cases:
  "encrypt_message L r self m w =
     (case encrypt_body L r self m of
        Inr s \<Rightarrow> (Returned (Some s), self, logging (Debug ''Encrypting message...'') w)
      | Inl e \<Rightarrow> (Returned None, self\<lparr>f_status := Some False\<rparr>,
                  logging (Error e) (logging (Debug ''Encrypting message...'') w)))"
  by (simp add: encrypt_message_def Let_def)

lemma decrypt_message_cases:
  "decrypt_message L self m w =
     (case decrypt_body L self m of
        Inr s \<Rightarrow> (Returned (Some s), self, logging (Debug ''Decrypting message...'') w)
      | Inl e \<Rightarrow> (Returned None, self\<lparr>f_status := Some False\<rparr>,
                  logging (Error e) (logging (Debug ''Decrypting message...'') w)))"
  by (simp add: decrypt_message_def Let_def)

lemma encrypt_message_status:
  "f_status (fst (snd (encrypt_message L r self m w))) = f_status self
   \<or> f_status (fst (snd (encrypt_message L r self m w))) = Some False"
  by (simp add: encrypt_message_cases split: sum.splits)

lemma decrypt_message_status:
  "f_status (fst (snd (decrypt_message L self m w))) = f_status self
   \<or> f_status (fst (snd (decrypt_message L self m w))) = Some False"
  by (simp add: decrypt_message_cases split: sum.splits)

lemma call_status:
  assumes a: "call L c self w = Some (self1, w1)"
  shows "f_status self1 = f_status self \<or> f_status self1 = Some False"
proof (cases c)
  case (Generate_key r p)
  then show ?thesis using a generate_key_status [of L r self p w]
    by (auto split: prod.splits outcome.splits)
next
  case (Load_key p)
  then show ?thesis using a load_key_status [of self p w]
    by (auto split: prod.splits outcome.splits)
next
  case (Encrypt_message r m)
  then show ?thesis using a encrypt_message_status [of L r self m w]
    by (auto split: prod.splits outcome.splits)
next
  case (Decrypt_message m)
  then show ?thesis using a decrypt_message_status [of L self m w]
    by (auto split: prod.splits outcome.splits)
qed

lemma calls_status:
  "calls L cs self w = Some (self1, w1) \<Longrightarrow>
     f_status self1 = f_status self \<or> f_status self1 = Some False"
proof (induction cs arbitrary: self w)
  case Nil
  then show ?case by simp
next
  case (Cons c cs)
  then obtain s2 w2 where c: "call L c self w = Some (s2, w2)"
    and r: "calls L cs s2 w2 = Some (self1, w1)"
    by (auto split: option.splits)
  from call_status [OF c] Cons.IH [OF r] show ?case by auto
qed

lemma init_status: "init kp w = (Returned self0, w0) \<Longrightarrow> f_status self0 = Some True"
  by (auto simp add: init_def load_key_def Let_def split: option.splits sum.splits)





lemma sample_generate:
  "lib_generate_key sample_lib [0x57, 0x58, 0x59, 0x5A] = Inr [0x57, 0x58, 0x59, 0x5A]"
  by (simp add: sample_lib_def sample_key_def)

lemma sample_encrypt_body:
  "length k = 4 \<Longrightarrow> sample_key k = k \<Longrightarrow> f_key self = Some k \<Longrightarrow> str_encode P = Inr data \<Longrightarrow>
     encrypt_body sample_lib r self (Some P) = bytes_decode (k @ sample_nonce r # data)"
  by (simp add: encrypt_body_def get_key_def encode_arg_def sample_lib_def)

lemma bytes_WXYZ1hi:
  "bytes_decode [0x57, 0x58, 0x59, 0x5A, 0x31, 0x68, 0x69] = Inr [87, 88, 89, 90, 49, 104, 105]"
  by (simp add: cons_cp_def)

lemma str_hi: "str_encode [104, 105] = Inr [0x68, 0x69]"
  by (simp add: encode_cp_def)


lemma rfind_None: "x \<notin> set ys \<Longrightarrow> rfind x ys = None"
  by (induction ys) auto

lemma rfind_last: "x \<notin> set ys \<Longrightarrow> rfind x (xs @ x # ys) = Some (length xs)"
  by (induction xs) (auto simp add: rfind_None)

lemma stem_suffix:
  assumes "name \<noteq> []" "ext \<noteq> []" "CHR ''.'' \<notin> set ext"
    and "path_name p = name @ ''.'' @ ext"
  shows "stem p = name" and "suffix p = ''.'' @ ext"
proof -
  have r: "rfind (CHR ''.'') (path_name p) = Some (length name)"
    using assms(3,4) rfind_last [of "CHR ''.''" ext name] by simp
  have c: "0 < length name \<and> length name < length (path_name p) - 1"
    using assms by (cases ext) auto
  show "stem p = name" using r c assms(4) by (simp add: stem_def)
  show "suffix p = ''.'' @ ext" using r c assms(4) by (simp add: suffix_def)
qed

text \<open>
  Names that are not of the form \<^verbatim>\<open>name.ext\<close>: a name with no dot but a leading one,
  or with a trailing dot, has an empty suffix, and the mark goes to the end. Of
  several extensions only the last is the suffix.
\<close>

lemma names_with_empty_suffix:
  "encrypted_name [''.bashrc''] = ''.bashrc_C''
   \<and> encrypted_name [''notes.''] = ''notes._C''
   \<and> encrypted_name [''README''] = ''README_C''
   \<and> encrypted_name [''archive.tar.gz''] = ''archive.tar_C.gz''"
  by (simp add: encrypted_name_def stem_def suffix_def path_name_def)

lemma init_loads:
  "open_rb (fs w) kp = Inr K \<Longrightarrow>
     init (Some kp) w =
       (Returned \<lparr>f_key = Some K, f_key_path = None, f_status = Some True\<rparr>,
        logging (Debug (''Loading key from '' @ path_str kp)) w)"
  by (simp add: init_def load_key_def fs_logging new_object_def)

lemma write_message_writes:
  "writable (fs w) q \<Longrightarrow> encode_text T c = Inr b \<Longrightarrow>
     fst (write_message T (Some c) q w) = Returned ()
     \<and> content (fs (snd (write_message T (Some c) q w))) q = Some b"
  by (simp add: write_message_def open_wb_def fs_logging)

lemma encrypt_event_writes:
  assumes "open_rb (fs w) kp = Inr K"
    and "encrypt_body L r \<lparr>f_key = Some K, f_key_path = None, f_status = Some True\<rparr> m = Inr c"
    and "writable (fs w) (joinpath ROOT_PATH (encrypted_name p))"
    and "encode_text T c = Inr b"
  shows "fst (encrypt_event L T r kp p m w) = Returned ()
     \<and> content (fs (snd (encrypt_event L T r kp p m w))) (joinpath ROOT_PATH (encrypted_name p))
         = Some b"
proof -
  let ?w2 = "logging (Debug ''Encrypting message...'')
      (logging (Debug (''Loading key from '' @ path_str kp)) w)"
  have e: "encrypt_event L T r kp p m w
      = write_message T (Some c) (joinpath ROOT_PATH (encrypted_name p)) ?w2"
    by (simp add: encrypt_event_def init_loads [OF assms(1)] encrypt_message_cases assms(2)
        status_def)
  have "writable (fs ?w2) (joinpath ROOT_PATH (encrypted_name p))"
    using assms(3) by (simp add: fs_logging)
  from write_message_writes [OF this assms(4)] show ?thesis by (simp only: e)
qed

lemma decrypt_event_writes:
  assumes "open_rb (fs w) kp = Inr K"
    and "decrypt_body L \<lparr>f_key = Some K, f_key_path = None, f_status = Some True\<rparr> m = Inr c"
    and "writable (fs w) (joinpath ROOT_PATH (decrypted_name p))"
    and "encode_text T c = Inr b"
  shows "fst (decrypt_event L T kp p m w) = Returned ()
     \<and> content (fs (snd (decrypt_event L T kp p m w))) (joinpath ROOT_PATH (decrypted_name p))
         = Some b"
proof -
  let ?w2 = "logging (Debug ''Decrypting message...'')
      (logging (Debug (''Loading key from '' @ path_str kp)) w)"
  have e: "decrypt_event L T kp p m w
      = write_message T (Some c) (joinpath ROOT_PATH (decrypted_name p)) ?w2"
    by (simp add: decrypt_event_def init_loads [OF assms(1)] decrypt_message_cases assms(2)
        status_def)
  have "writable (fs ?w2) (joinpath ROOT_PATH (decrypted_name p))"
    using assms(3) by (simp add: fs_logging)
  from write_message_writes [OF this assms(4)] show ?thesis by (simp only: e)
qed







text \<open>Evaluations at the concrete inputs.\<close>

lemma sample_open_key: "open_rb (fs sample_world) [''k.key''] = Inr [0x41, 0x42, 0x43, 0x44]"
  by (simp add: open_rb_def sample_world_def sample_fs_def)

lemma sample_encrypt_hi:
  "encrypt_body sample_lib [0x31]
     \<lparr>f_key = Some [0x41, 0x42, 0x43, 0x44], f_key_path = None, f_status = Some True\<rparr>
     (Some [104, 105]) = Inr [65, 66, 67, 68, 49, 104, 105]"
  by (simp add: encrypt_body_def get_key_def sample_lib_def sample_key_def
      encode_arg_def encode_cp_def sample_nonce_def cons_cp_def)

lemma sample_decrypt_hi:
  "decrypt_body sample_lib
     \<lparr>f_key = Some [0x41, 0x42, 0x43, 0x44], f_key_path = None, f_status = Some True\<rparr>
     (Some [65, 66, 67, 68, 49, 104, 105]) = Inr [104, 105]"
  by (simp add: decrypt_body_def get_key_def sample_lib_def sample_key_def
      encode_arg_def encode_cp_def cons_cp_def)

lemma sample_encode_token:
  "encode_text sample_text [65, 66, 67, 68, 49, 104, 105]
     = Inr [0x41, 0x42, 0x43, 0x44, 0x31, 0x68, 0x69]"
  by (simp add: sample_text_def encode_cp_def)

lemma sample_encode_hi: "encode_text sample_text [104, 105] = Inr [0x68, 0x69]"
  by (simp add: sample_text_def encode_cp_def)







section \<open>Claims\<close>







text \<open>
  C3. For every path that does not exist or cannot be read, \<^verbatim>\<open>load_key\<close> logs the
  error and ends the process with the exit status \<open>-1\<close>, which is not zero; it
  neither returns nor raises. The constructor, which calls \<^verbatim>\<open>load_key\<close> when it is
  given a path, ends the process in the same way.
\<close>

theorem missing_key_exits:
  "content (fs w) p = None \<or> \<not> readable (fs w) p \<Longrightarrow>
     (\<exists>e. load_key self p w =
        (Exited (- 1), self,
         logging (Error e) (logging (Debug (''Loading key from '' @ path_str p)) w)))
     \<and> (\<exists>e. init (Some p) w =
        (Exited (- 1),
         logging (Error e) (logging (Debug (''Loading key from '' @ path_str p)) w)))"
proof -
  assume "content (fs w) p = None \<or> \<not> readable (fs w) p"
  then obtain e where e: "open_rb (fs w) p = Inl e" using open_rb_fails by blast
  have l: "load_key s p w =
        (Exited (- 1), s,
         logging (Error e) (logging (Debug (''Loading key from '' @ path_str p)) w))" for s
    by (simp add: load_key_def fs_logging e)
  have "init (Some p) w =
        (Exited (- 1),
         logging (Error e) (logging (Debug (''Loading key from '' @ path_str p)) w))"
    by (simp add: init_def l)
  with l show ?thesis by blast
qed

text \<open>C3 at a path that does not exist in the sample file system.\<close>

theorem missing_key_exits_witness:
  "content (fs sample_world) [''missing.key''] = None
   \<and> fst (load_key sample_cypher [''missing.key''] sample_world) = Exited (- 1)
   \<and> fst (init (Some [''missing.key'']) sample_world) = Exited (- 1)"
proof -
  have h: "content (fs sample_world) [''missing.key''] = None"
    by (simp add: sample_world_def sample_fs_def)
  then have "content (fs sample_world) [''missing.key''] = None
     \<or> \<not> readable (fs sample_world) [''missing.key'']" by simp
  from missing_key_exits [OF this, of sample_cypher] h show ?thesis by auto
qed

text \<open>
  C4. The name of the output file is the stem of the input file's name, then
  \<^verbatim>\<open>_C\<close> (encryption) or \<^verbatim>\<open>_D\<close> (decryption), then its suffix, with no special case
  for a name that already carries such a mark. A file name of the form
  \<^verbatim>\<open>name.ext\<close> is one with a nonempty \<open>name\<close> and a nonempty extension \<open>ext\<close> without
  a dot: for every such name the outputs are \<^verbatim>\<open>name_C.ext\<close> and \<^verbatim>\<open>name_D.ext\<close>. In
  particular \<^verbatim>\<open>note.txt\<close> gives \<^verbatim>\<open>note_C.txt\<close>, and \<^verbatim>\<open>note_C.txt\<close> gives
  \<^verbatim>\<open>note_C_D.txt\<close>. A handler whose encryption or decryption succeeds writes the
  result to the file of that name under \<^verbatim>\<open>ROOT_PATH\<close>.
\<close>

theorem output_file_names:
  assumes "name \<noteq> []" and "ext \<noteq> []" and "CHR ''.'' \<notin> set ext"
    and "path_name p = name @ ''.'' @ ext"
  shows "encrypted_name p = name @ ''_C.'' @ ext
     \<and> decrypted_name p = name @ ''_D.'' @ ext
     \<and> encrypted_name [''note.txt''] = ''note_C.txt''
     \<and> decrypted_name [''note_C.txt''] = ''note_C_D.txt''
     \<and> (\<forall>K c b. open_rb (fs w) kp = Inr K
           \<and> encrypt_body L r \<lparr>f_key = Some K, f_key_path = None, f_status = Some True\<rparr> m = Inr c
           \<and> writable (fs w) [name @ ''_C.'' @ ext] \<and> encode_text T c = Inr b \<longrightarrow>
           fst (encrypt_event L T r kp p m w) = Returned ()
           \<and> content (fs (snd (encrypt_event L T r kp p m w))) [name @ ''_C.'' @ ext] = Some b)
     \<and> (\<forall>K c b. open_rb (fs w) kp = Inr K
           \<and> decrypt_body L \<lparr>f_key = Some K, f_key_path = None, f_status = Some True\<rparr> m = Inr c
           \<and> writable (fs w) [name @ ''_D.'' @ ext] \<and> encode_text T c = Inr b \<longrightarrow>
           fst (decrypt_event L T kp p m w) = Returned ()
           \<and> content (fs (snd (decrypt_event L T kp p m w))) [name @ ''_D.'' @ ext] = Some b)"
proof -
  have en: "encrypted_name p = name @ ''_C.'' @ ext"
    using stem_suffix [OF assms] by (simp add: encrypted_name_def)
  have dn: "decrypted_name p = name @ ''_D.'' @ ext"
    using stem_suffix [OF assms] by (simp add: decrypted_name_def)
  have n1: "encrypted_name [''note.txt''] = ''note_C.txt''"
    using stem_suffix [of "''note''" "''txt''" "[''note.txt'']"]
    by (simp add: encrypted_name_def path_name_def)
  have n2: "decrypted_name [''note_C.txt''] = ''note_C_D.txt''"
    using stem_suffix [of "''note_C''" "''txt''" "[''note_C.txt'']"]
    by (simp add: decrypted_name_def path_name_def)
  have je: "joinpath ROOT_PATH (encrypted_name p) = [name @ ''_C.'' @ ext]"
    by (simp only: en joinpath_def ROOT_PATH_def append_Nil)
  have jd: "joinpath ROOT_PATH (decrypted_name p) = [name @ ''_D.'' @ ext]"
    by (simp only: dn joinpath_def ROOT_PATH_def append_Nil)
  have ee: "\<forall>K c b. open_rb (fs w) kp = Inr K
           \<and> encrypt_body L r \<lparr>f_key = Some K, f_key_path = None, f_status = Some True\<rparr> m = Inr c
           \<and> writable (fs w) [name @ ''_C.'' @ ext] \<and> encode_text T c = Inr b \<longrightarrow>
           fst (encrypt_event L T r kp p m w) = Returned ()
           \<and> content (fs (snd (encrypt_event L T r kp p m w))) [name @ ''_C.'' @ ext] = Some b"
    using encrypt_event_writes [of w kp _ L r m _ p T] unfolding je by blast
  have de: "\<forall>K c b. open_rb (fs w) kp = Inr K
           \<and> decrypt_body L \<lparr>f_key = Some K, f_key_path = None, f_status = Some True\<rparr> m = Inr c
           \<and> writable (fs w) [name @ ''_D.'' @ ext] \<and> encode_text T c = Inr b \<longrightarrow>
           fst (decrypt_event L T kp p m w) = Returned ()
           \<and> content (fs (snd (decrypt_event L T kp p m w))) [name @ ''_D.'' @ ext] = Some b"
    using decrypt_event_writes [of w kp _ L m _ p T] unfolding jd by blast
  from en dn n1 n2 ee de show ?thesis by (intro conjI)
qed

text \<open>C4 at the message file \<^verbatim>\<open>docs/note.txt\<close> and the key file of the sample file system.\<close>

theorem output_file_names_witness:
  "''note'' \<noteq> [] \<and> ''txt'' \<noteq> [] \<and> CHR ''.'' \<notin> set ''txt''
   \<and> path_name [''docs'', ''note.txt''] = ''note'' @ ''.'' @ ''txt''
   \<and> encrypted_name [''docs'', ''note.txt''] = ''note_C.txt''
   \<and> decrypted_name [''docs'', ''note.txt''] = ''note_D.txt''
   \<and> content (fs (snd (encrypt_event sample_lib sample_text [0x31] [''k.key'']
         [''docs'', ''note.txt''] (Some [104, 105]) sample_world))) [''note_C.txt'']
       = Some [0x41, 0x42, 0x43, 0x44, 0x31, 0x68, 0x69]
   \<and> content (fs (snd (decrypt_event sample_lib sample_text [''k.key'']
         [''docs'', ''note.txt''] (Some [65, 66, 67, 68, 49, 104, 105]) sample_world)))
         [''note_D.txt'']
       = Some [0x68, 0x69]"
proof -
  have h: "''note'' \<noteq> []" "''txt'' \<noteq> []" "CHR ''.'' \<notin> set ''txt''"
    "path_name [''docs'', ''note.txt''] = ''note'' @ ''.'' @ ''txt''"
    by (simp_all add: path_name_def)
  have w: "writable (fs sample_world) [''note'' @ ''_C.'' @ ''txt'']"
    "writable (fs sample_world) [''note'' @ ''_D.'' @ ''txt'']"
    by (simp_all add: sample_world_def sample_fs_def)
  note t = output_file_names [OF h, where w = sample_world and kp = "[''k.key'']"
      and L = sample_lib and T = sample_text and r = "[0x31]"]
  from t [where m = "Some [104, 105]"] sample_open_key sample_encrypt_hi w(1) sample_encode_token
  have a: "encrypted_name [''docs'', ''note.txt''] = ''note'' @ ''_C.'' @ ''txt''
     \<and> decrypted_name [''docs'', ''note.txt''] = ''note'' @ ''_D.'' @ ''txt''
     \<and> content (fs (snd (encrypt_event sample_lib sample_text [0x31] [''k.key'']
         [''docs'', ''note.txt''] (Some [104, 105]) sample_world))) [''note'' @ ''_C.'' @ ''txt'']
       = Some [0x41, 0x42, 0x43, 0x44, 0x31, 0x68, 0x69]"
    by blast
  from t [where m = "Some [65, 66, 67, 68, 49, 104, 105]"] sample_open_key sample_decrypt_hi
    w(2) sample_encode_hi
  have b: "content (fs (snd (decrypt_event sample_lib sample_text [''k.key'']
         [''docs'', ''note.txt''] (Some [65, 66, 67, 68, 49, 104, 105]) sample_world)))
         [''note'' @ ''_D.'' @ ''txt'']
       = Some [0x68, 0x69]"
    by blast
  from h a b show ?thesis by simp
qed




text \<open>
  C6. For a path that does not exist or cannot be read, and for any other failure of
  the read, \<^verbatim>\<open>load_message\<close> returns \<^verbatim>\<open>None\<close>, logs the error and does not end the
  process; for a file that can be read as text it returns the whole content of the
  file, as the text layer decodes it.
\<close>

theorem load_message_failure_and_success:
  "(content (fs w) p = None \<or> \<not> readable (fs w) p \<longrightarrow>
      (\<exists>e. load_message T p w =
         (Returned None,
          logging (Error e) (logging (Debug (''Loading message from '' @ path_str p)) w))))
   \<and> (\<forall>e. open_r T (fs w) p = Inl e \<longrightarrow>
         load_message T p w =
           (Returned None,
            logging (Error e) (logging (Debug (''Loading message from '' @ path_str p)) w)))
   \<and> (\<forall>b s. content (fs w) p = Some b \<and> readable (fs w) p \<and> decode_text T b = Inr s \<longrightarrow>
         load_message T p w =
           (Returned (Some s), logging (Debug (''Loading message from '' @ path_str p)) w))"
proof (intro conjI impI allI)
  assume "content (fs w) p = None \<or> \<not> readable (fs w) p"
  then obtain e where "open_rb (fs w) p = Inl e" using open_rb_fails by blast
  then show "\<exists>e. load_message T p w =
         (Returned None,
          logging (Error e) (logging (Debug (''Loading message from '' @ path_str p)) w))"
    by (auto simp add: load_message_def open_r_def fs_logging)
next
  fix e assume "open_r T (fs w) p = Inl e"
  then show "load_message T p w =
           (Returned None,
            logging (Error e) (logging (Debug (''Loading message from '' @ path_str p)) w))"
    by (simp add: load_message_def fs_logging)
next
  fix b s assume "content (fs w) p = Some b \<and> readable (fs w) p \<and> decode_text T b = Inr s"
  then show "load_message T p w =
           (Returned (Some s), logging (Debug (''Loading message from '' @ path_str p)) w)"
    by (simp add: load_message_def open_r_def open_rb_def fs_logging)
qed

text \<open>C6 at a missing file and at the file \<^verbatim>\<open>note.txt\<close> of the sample file system.\<close>

theorem load_message_failure_and_success_witness:
  "content (fs sample_world) [''missing.txt''] = None
   \<and> fst (load_message sample_text [''missing.txt''] sample_world) = Returned None
   \<and> logs (snd (load_message sample_text [''missing.txt''] sample_world))
       = [Debug ''Loading message from /missing.txt'', Error FileNotFoundError]
   \<and> content (fs sample_world) [''note.txt''] = Some [0x68, 0x69]
   \<and> readable (fs sample_world) [''note.txt'']
   \<and> decode_text sample_text [0x68, 0x69] = Inr [104, 105]
   \<and> fst (load_message sample_text [''note.txt''] sample_world) = Returned (Some [104, 105])"
proof -
  have a: "content (fs sample_world) [''missing.txt''] = None"
    by (simp add: sample_world_def sample_fs_def)
  have o: "open_r sample_text (fs sample_world) [''missing.txt''] = Inl FileNotFoundError"
    by (simp add: open_r_def open_rb_def sample_world_def sample_fs_def)
  have b: "content (fs sample_world) [''note.txt''] = Some [0x68, 0x69]
      \<and> readable (fs sample_world) [''note.txt'']
      \<and> decode_text sample_text [0x68, 0x69] = Inr [104, 105]"
    by (simp add: sample_world_def sample_fs_def sample_text_def cons_cp_def)
  from load_message_failure_and_success [of sample_world "[''missing.txt'']" sample_text]
    load_message_failure_and_success [of sample_world "[''note.txt'']" sample_text]
    a o b
  show ?thesis by (simp add: logs_logging path_str_def sample_world_def)
qed




text \<open>
  C8. The constructor sets the status flag to true. No method sets it to true again:
  \<^verbatim>\<open>generate_key\<close> and \<^verbatim>\<open>load_key\<close> leave it as it is, \<^verbatim>\<open>encrypt_message\<close> and
  \<^verbatim>\<open>decrypt_message\<close> leave it as it is or set it to false. So over any sequence of
  calls the flag keeps its value or becomes false, and once an encryption or a
  decryption has failed, \<^verbatim>\<open>status\<close> reads false after every later call, whether that
  call succeeds or not.
\<close>

theorem status_never_reset:
  "(\<forall>self0 w0. init kp w = (Returned self0, w0) \<longrightarrow> f_status self0 = Some True)
   \<and> (f_status self = Some False \<longrightarrow>
        f_status (fst (snd (generate_key L r self p w))) = Some False
        \<and> f_status (fst (snd (load_key self p w))) = Some False
        \<and> f_status (fst (snd (encrypt_message L r self m w))) = Some False
        \<and> f_status (fst (snd (decrypt_message L self m w))) = Some False)
   \<and> (\<forall>self1 w1. calls L cs self w = Some (self1, w1) \<longrightarrow>
          f_status self1 = f_status self \<or> f_status self1 = Some False)
   \<and> (\<forall>self1 w1 self2 w2.
          (encrypt_message L r self m w = (Returned None, self1, w1)
           \<or> decrypt_message L self m w = (Returned None, self1, w1))
          \<and> calls L cs self1 w1 = Some (self2, w2) \<longrightarrow> status self2 = Returned False)"
proof (intro conjI allI impI)
  fix self0 w0 assume "init kp w = (Returned self0, w0)"
  then show "f_status self0 = Some True" by (rule init_status)
next
  assume "f_status self = Some False"
  then show "f_status (fst (snd (generate_key L r self p w))) = Some False"
    by (simp add: generate_key_status)
next
  assume "f_status self = Some False"
  then show "f_status (fst (snd (load_key self p w))) = Some False"
    by (simp add: load_key_status)
next
  assume "f_status self = Some False"
  then show "f_status (fst (snd (encrypt_message L r self m w))) = Some False"
    using encrypt_message_status [of L r self m w] by auto
next
  assume "f_status self = Some False"
  then show "f_status (fst (snd (decrypt_message L self m w))) = Some False"
    using decrypt_message_status [of L self m w] by auto
next
  fix self1 w1 assume "calls L cs self w = Some (self1, w1)"
  then show "f_status self1 = f_status self \<or> f_status self1 = Some False"
    by (rule calls_status)
next
  fix self1 w1 self2 w2
  assume a: "(encrypt_message L r self m w = (Returned None, self1, w1)
           \<or> decrypt_message L self m w = (Returned None, self1, w1))
          \<and> calls L cs self1 w1 = Some (self2, w2)"
  then have "f_status self1 = Some False"
    by (auto simp add: encrypt_message_cases decrypt_message_cases split: sum.splits)
  moreover from a have "f_status self2 = f_status self1 \<or> f_status self2 = Some False"
    using calls_status by blast
  ultimately show "status self2 = Returned False" by (auto simp add: status_def)
qed

text \<open>
  C8 on a run: an encryption without a key fails; then a key is generated and an
  encryption succeeds; the status is still false.
\<close>

theorem status_never_reset_witness:
  "encrypt_message sample_lib [0x31] (new_object\<lparr>f_status := Some True\<rparr>) (Some [104, 105])
       sample_world
     = (Returned None, new_object\<lparr>f_status := Some False\<rparr>,
        logging (Error AttributeError) (logging (Debug ''Encrypting message...'') sample_world))
   \<and> map_option (\<lambda>x. (f_key (fst x), status (fst x)))
        (calls sample_lib
           [Generate_key [0x57, 0x58, 0x59, 0x5A] [''new.key''],
            Encrypt_message [0x31] (Some [104, 105])]
           (new_object\<lparr>f_status := Some False\<rparr>)
           (logging (Error AttributeError)
              (logging (Debug ''Encrypting message...'') sample_world)))
       = Some (Some [0x57, 0x58, 0x59, 0x5A], Returned False)
   \<and> fst (encrypt_message sample_lib [0x31]
          (new_object\<lparr>f_status := Some False, f_key := Some [0x57, 0x58, 0x59, 0x5A]\<rparr>)
          (Some [104, 105]) sample_world)
       = Returned (Some [87, 88, 89, 90, 49, 104, 105])"
proof -
  let ?w1 = "logging (Error AttributeError) (logging (Debug ''Encrypting message...'') sample_world)"
  let ?cs = "[Generate_key [0x57, 0x58, 0x59, 0x5A] [''new.key''],
            Encrypt_message [0x31] (Some [104, 105])]"
  have e: "encrypt_message sample_lib [0x31] (new_object\<lparr>f_status := Some True\<rparr>)
       (Some [104, 105]) sample_world
     = (Returned None, new_object\<lparr>f_status := Some False\<rparr>, ?w1)"
    by (simp add: encrypt_message_cases encrypt_body_def get_key_def new_object_def)
  have wr: "writable (fs ?w1) [''new.key'']"
    by (simp add: fs_logging sample_world_def sample_fs_def)
  have "\<exists>wg. generate_key sample_lib [0x57, 0x58, 0x59, 0x5A]
      (new_object\<lparr>f_status := Some False\<rparr>) [''new.key''] ?w1 = (Returned True,
        new_object\<lparr>f_status := Some False, f_key := Some [0x57, 0x58, 0x59, 0x5A]\<rparr>, wg)"
    using wr by (simp add: generate_key_cases sample_generate open_wb_def)
  then obtain wg where g: "generate_key sample_lib [0x57, 0x58, 0x59, 0x5A]
      (new_object\<lparr>f_status := Some False\<rparr>) [''new.key''] ?w1 = (Returned True,
        new_object\<lparr>f_status := Some False, f_key := Some [0x57, 0x58, 0x59, 0x5A]\<rparr>, wg)"
    by blast
  have "encrypt_body sample_lib [0x31]
      (new_object\<lparr>f_status := Some False, f_key := Some [0x57, 0x58, 0x59, 0x5A]\<rparr>)
      (Some [104, 105]) = bytes_decode ([0x57, 0x58, 0x59, 0x5A] @ sample_nonce [0x31] # [0x68, 0x69])"
    by (rule sample_encrypt_body; simp add: sample_key_def encode_cp_def)
  then have b: "encrypt_body sample_lib [0x31]
      (new_object\<lparr>f_status := Some False, f_key := Some [0x57, 0x58, 0x59, 0x5A]\<rparr>)
      (Some [104, 105]) = Inr [87, 88, 89, 90, 49, 104, 105]"
    by (simp only: sample_nonce_def list.case append.simps bytes_WXYZ1hi)
  have c: "\<exists>w2. calls sample_lib ?cs (new_object\<lparr>f_status := Some False\<rparr>) ?w1
      = Some (new_object\<lparr>f_status := Some False, f_key := Some [0x57, 0x58, 0x59, 0x5A]\<rparr>, w2)"
    by (simp add: g encrypt_message_cases b)
  then obtain w2 where c2: "calls sample_lib ?cs (new_object\<lparr>f_status := Some False\<rparr>) ?w1
      = Some (new_object\<lparr>f_status := Some False, f_key := Some [0x57, 0x58, 0x59, 0x5A]\<rparr>, w2)"
    by blast
  from status_never_reset [where L = sample_lib and r = "[0x31]"
      and self = "new_object\<lparr>f_status := Some True\<rparr>" and m = "Some [104, 105]"
      and w = sample_world and cs = ?cs] e c2
  have "status (new_object\<lparr>f_status := Some False, f_key := Some [0x57, 0x58, 0x59, 0x5A]\<rparr>)
      = Returned False" by blast
  with e c2 b show ?thesis by (simp add: encrypt_message_cases)
qed

text \<open>
  C9. \<^verbatim>\<open>generate_key\<close> is not atomic: when the key file cannot be written it returns
  \<^verbatim>\<open>False\<close>, and the instance already holds the freshly generated key; the key it
  held before the call is not restored.
\<close>

theorem generate_key_keeps_new_key_on_failure:
  "lib_generate_key L r = Inr k \<Longrightarrow> open_wb (fs w) p k = Inl e \<Longrightarrow>
     generate_key L r self p w =
       (Returned False, self\<lparr>f_key := Some k\<rparr>,
        logging (Error e) (logging (Debug ''Generating the key...'') w))"
  by (simp add: generate_key_def fs_logging)

text \<open>C9 in a directory of the sample file system where nothing can be written.\<close>

theorem generate_key_keeps_new_key_on_failure_witness:
  "lib_generate_key sample_lib [0x57, 0x58, 0x59, 0x5A] = Inr [0x57, 0x58, 0x59, 0x5A]
   \<and> open_wb (fs sample_world) [''ro'', ''k.key''] [0x57, 0x58, 0x59, 0x5A] = Inl PermissionError
   \<and> f_key sample_cypher = Some [0x41, 0x42, 0x43, 0x44]
   \<and> fst (generate_key sample_lib [0x57, 0x58, 0x59, 0x5A] sample_cypher [''ro'', ''k.key'']
          sample_world) = Returned False
   \<and> f_key (fst (snd (generate_key sample_lib [0x57, 0x58, 0x59, 0x5A] sample_cypher
          [''ro'', ''k.key''] sample_world))) = Some [0x57, 0x58, 0x59, 0x5A]"
proof -
  have g: "lib_generate_key sample_lib [0x57, 0x58, 0x59, 0x5A] = Inr [0x57, 0x58, 0x59, 0x5A]"
    by (simp add: sample_lib_def sample_key_def)
  have o: "open_wb (fs sample_world) [''ro'', ''k.key''] [0x57, 0x58, 0x59, 0x5A]
      = Inl PermissionError"
    by (simp add: open_wb_def sample_world_def sample_fs_def)
  from generate_key_keeps_new_key_on_failure [OF g o, of sample_cypher] g o
  show ?thesis by (simp add: sample_cypher_def)
qed

text \<open>
  C10. On an instance whose key slot was never assigned (one constructed without a
  key path, before any call of \<^verbatim>\<open>load_key\<close> or \<^verbatim>\<open>generate_key\<close>),
  \<^verbatim>\<open>encrypt_message\<close> and \<^verbatim>\<open>decrypt_message\<close> raise nothing to the caller: they return
  \<^verbatim>\<open>None\<close>, log the \<^verbatim>\<open>AttributeError\<close> and set the status flag to false.
\<close>

theorem no_key_never_raises:
  "f_key self = None \<Longrightarrow>
     encrypt_message L r self m w =
       (Returned None, self\<lparr>f_status := Some False\<rparr>,
        logging (Error AttributeError) (logging (Debug ''Encrypting message...'') w))
     \<and> decrypt_message L self m w =
       (Returned None, self\<lparr>f_status := Some False\<rparr>,
        logging (Error AttributeError) (logging (Debug ''Decrypting message...'') w))
     \<and> status (self\<lparr>f_status := Some False\<rparr>) = Returned False"
  by (simp add: encrypt_message_def decrypt_message_def encrypt_body_def decrypt_body_def
      get_key_def status_def)


text \<open>C10 at the instance that the constructor returns when it is given no path.\<close>

theorem no_key_never_raises_witness:
  "f_key (new_object\<lparr>f_status := Some True\<rparr>) = None
   \<and> fst (init None sample_world) = Returned (new_object\<lparr>f_status := Some True\<rparr>)
   \<and> fst (encrypt_message sample_lib [0x31] (new_object\<lparr>f_status := Some True\<rparr>)
          (Some [104, 105]) sample_world) = Returned None
   \<and> f_status (fst (snd (decrypt_message sample_lib (new_object\<lparr>f_status := Some True\<rparr>)
          (Some [104, 105]) sample_world))) = Some False"
proof -
  have h: "f_key (new_object\<lparr>f_status := Some True\<rparr>) = None"
    by (simp add: new_object_def)
  have i: "fst (init None sample_world) = Returned (new_object\<lparr>f_status := Some True\<rparr>)"
    by (simp add: init_def)
  from no_key_never_raises [OF h, of sample_lib "[0x31]" "Some [104, 105]" sample_world] h i
  show ?thesis by simp
qed

end
